theory Spec2Isabelle
  imports Main "HOL-Library.Word" "HOL-Library.Code_Target_Nat"
begin

section \<open>The goroutine pool of \<open>pool.go\<close>\<close>

text \<open>
  The embedding follows \<open>pool.go\<close> function by function. Each exported or internal
  method of \<open>Pool\<close> is one HOL function on the pool state, first as a call run by one
  goroutine with no other goroutine interleaved, where a call that waits never returns;
  then as a call that can be parked at each point where it waits and taken up again
  after other goroutines have moved. The mutex \<open>lock\<close> only delimits critical sections,
  and a call runs from one waiting point to the next without interruption, so the lock
  has no field of its own.

  Go's \<open>int\<close> is taken at its 64-bit width, \<open>int32\<close> is a 32-bit word: the conversion
  \<open>int32(size)\<close> keeps the low 32 bits (\<open>ucast\<close>), \<open>int(x)\<close> of an \<open>int32\<close>
  extends the sign (\<open>scast\<close>), and \<open>+\<close>, \<open>-\<close> on \<open>int32\<close> wrap around.
  The parameter \<open>size\<close> of \<open>NewPool\<close> and \<open>ReSize\<close> is written \<open>n\<close>, \<open>size\<close> being
  a constant of HOL.
\<close>

subsection \<open>Data model\<close>

type_synonym go_int = "64 word"
type_synonym int32 = "32 word"

text \<open>A \<open>*Worker\<close> is known by its address; a task \<open>f\<close> is an opaque callable.\<close>

type_synonym worker = nat
type_synonym task = nat

datatype chan_state = ChanOpen | ChanClosed

text \<open>
  The two error values \<open>PoolSizeInvalidError\<close> and \<open>PoolClosedError\<close> are declared in a
  file of the package that is not part of the sources at hand; only their identity matters.
  A run-time panic of Go is a value of its own.
\<close>

datatype error = PoolSizeInvalidError | PoolClosedError

datatype go_panic = CloseOfClosedChannel

text \<open>
  The fields of \<open>struct Pool\<close>:
  \<^item> \<open>freeSignal\<close> is a buffered channel of empty structs, so its content is the number
    of buffered units; its buffer holds \<open>math.MaxInt32\<close> of them;
  \<^item> \<open>workers\<close> is the slice of idle workers, the top of the stack last;
  \<^item> \<open>workerPool\<close> is the content of the \<open>sync.Pool\<close>;
  \<^item> \<open>release\<close> is an unbuffered channel that is only ever closed.

  Four more fields stand for what lives outside the struct, in the workers:
  \<open>started\<close> lists the workers allocated and started so far (the next fresh address
  is its length), \<open>inbox\<close> records the tasks handed to workers, \<open>busy\<close> lists the
  workers that hold a task and are not back at their receive, and \<open>stopped\<close> lists
  the workers that have been told to stop.
\<close>

record pool =
  capacity :: int32
  running :: int32
  freeSignal :: nat
  workers :: "worker list"
  workerPool :: "worker list"
  release :: chan_state
  closed :: int32
  started :: "worker list"
  inbox :: "(worker \<times> task) list"
  busy :: "worker list"
  stopped :: "worker list"

definition MaxInt32 :: nat where
  "MaxInt32 = 2147483647"

subsection \<open>Construction and the counters\<close>

definition NewPool :: "go_int \<Rightarrow> error + pool" where
  "NewPool n =
     (if n \<le>s 0 then Inl PoolSizeInvalidError
      else Inr \<lparr> capacity = ucast n, running = 0, freeSignal = 0, workers = [],
                 workerPool = [], release = ChanOpen, closed = 0,
                 started = [], inbox = [], busy = [], stopped = [] \<rparr>)"

definition Running :: "pool \<Rightarrow> go_int" where
  "Running p = scast (running p)"

definition Free :: "pool \<Rightarrow> go_int" where
  "Free p = scast (capacity p - running p)"

definition Cap :: "pool \<Rightarrow> go_int" where
  "Cap p = scast (capacity p)"

text \<open>
  \<open>close\<close> of a channel that is already closed panics; the store to \<open>closed\<close> has
  happened by then and the mutex is still held, but the program does not go on.
\<close>

definition Release :: "pool \<Rightarrow> go_panic + pool" where
  "Release p =
     (let p1 = p\<lparr>closed := 1\<rparr>
      in case release p1 of
           ChanClosed \<Rightarrow> Inl CloseOfClosedChannel
         | ChanOpen \<Rightarrow> Inr (p1\<lparr>release := ChanClosed\<rparr>))"

definition ReSize :: "pool \<Rightarrow> go_int \<Rightarrow> pool" where
  "ReSize p n = p\<lparr>capacity := ucast n\<rparr>"

subsection \<open>The worker and the \<open>sync.Pool\<close>\<close>

text \<open>
  Modelled from the spec: the methods \<open>run\<close>, \<open>sendTask\<close> and \<open>stop\<close> of \<open>Worker\<close>
  are in a file that is not part of the sources at hand. The spec has
  \<^item> \<open>run\<close> start the worker's thread, which loops: it blocks awaiting a task, runs the
    task to completion, calls \<open>putWorker\<close> on itself, and awaits the next task;
  \<^item> the dispatch hand exactly one task to the worker over its single-slot channel
    (\<open>make(chan f)\<close> in \<open>getWorker\<close>: unbuffered), the sender blocking until the
    worker's thread is ready to receive;
  \<^item> \<open>stop\<close> disable the task channel, so that the thread exits.

  \<open>Worker_run\<close> records the worker as started. A worker is ready to receive when its
  thread has been started, holds no task and has not been told to stop. \<open>sendTask\<close>
  hands the task over to a ready worker, which then holds it; with a worker that is not
  ready the sender does not get through, which is \<open>None\<close>. \<open>Worker_stop\<close> records
  the worker as told to stop. The end of the worker's loop, \<open>Worker_return\<close>, comes
  after \<open>putWorker\<close>.
\<close>

definition Worker_run :: "worker \<Rightarrow> pool \<Rightarrow> pool" where
  "Worker_run w p = p\<lparr>started := started p @ [w]\<rparr>"

definition Worker_ready :: "pool \<Rightarrow> worker \<Rightarrow> bool" where
  "Worker_ready p w \<longleftrightarrow>
     w \<in> set (started p) \<and> w \<notin> set (busy p) \<and> w \<notin> set (stopped p)"

definition sendTask :: "worker \<Rightarrow> task \<Rightarrow> pool \<Rightarrow> pool option" where
  "sendTask w t p =
     (if Worker_ready p w
      then Some (p\<lparr>inbox := inbox p @ [(w, t)], busy := w # busy p\<rparr>)
      else None)"

definition Worker_stop :: "worker \<Rightarrow> pool \<Rightarrow> pool" where
  "Worker_stop w p = p\<lparr>stopped := stopped p @ [w]\<rparr>"

text \<open>
  \<open>sync.Pool.Get\<close> removes and returns an arbitrary item, and may at any time treat the
  pool as empty and return \<open>nil\<close> (no \<open>New\<close> function is set). The choice is an argument:
  \<open>None\<close> is the \<open>nil\<close> answer, \<open>Some i\<close> takes the item at position \<open>i\<close>, and is
  \<open>nil\<close> again when there is no such item.
\<close>

definition workerPool_Get :: "nat option \<Rightarrow> pool \<Rightarrow> worker option \<times> pool" where
  "workerPool_Get pick p =
     (case pick of
        None \<Rightarrow> (None, p)
      | Some i \<Rightarrow>
          if i < length (workerPool p)
          then (Some (workerPool p ! i),
                p\<lparr>workerPool := take i (workerPool p) @ drop (Suc i) (workerPool p)\<rparr>)
          else (None, p))"

definition workerPool_Put :: "worker \<Rightarrow> pool \<Rightarrow> pool" where
  "workerPool_Put w p = p\<lparr>workerPool := w # workerPool p\<rparr>"

subsection \<open>\<open>getWorker\<close>, \<open>putWorker\<close> and \<open>Push\<close>\<close>

text \<open>
  The first critical section of \<open>getWorker\<close>: it yields the local variables \<open>w\<close> and
  \<open>waiting\<close> and the pool. \<open>n < 0\<close> is the empty slice. The \<open>nil\<close> stored into the
  vacated slot of the backing array is beyond the length of the shortened slice, so it
  shows in no later read.
\<close>

definition getWorker_first :: "pool \<Rightarrow> worker option \<times> bool \<times> pool" where
  "getWorker_first p =
     (let ws = workers p; n = int (length ws) - 1
      in if n < 0
         then (if capacity p \<le>s running p then (None, True, p) else (None, False, p))
         else (Some (ws ! nat n), False, p\<lparr>workers := take (nat n) ws\<rparr>))"

text \<open>
  The \<open>for\<close> loop of the waiting branch. With nobody else to refill the slice it spins
  for ever on an empty one: not returning is \<open>None\<close>.
\<close>

partial_function (option) getWorker_loop :: "pool \<Rightarrow> (worker \<times> pool) option" where
  "getWorker_loop p =
     (let ws = workers p; l = int (length ws) - 1
      in if l < 0 then getWorker_loop p
         else Some (ws ! nat l, p\<lparr>workers := take (nat l) ws\<rparr>))"

declare getWorker_loop.simps [code]

text \<open>
  The branch taken when \<open>waiting\<close> is false: whatever \<open>w\<close> held is overwritten, by the
  cached worker or by a new one, which is started and counted in \<open>running\<close>.
\<close>

definition getWorker_fresh :: "nat option \<Rightarrow> pool \<Rightarrow> worker \<times> pool" where
  "getWorker_fresh pick p =
     (case workerPool_Get pick p of
        (None, p1) \<Rightarrow>
          (let w = length (started p1); p2 = Worker_run w p1
           in (w, p2\<lparr>running := running p2 + 1\<rparr>))
      | (Some wp, p1) \<Rightarrow> (wp, p1))"

text \<open>
  \<open>getWorker\<close>: \<open>None\<close> when the call never returns, which is a receive on an empty
  \<open>freeSignal\<close> or the loop spinning.
\<close>

definition getWorker :: "pool \<Rightarrow> nat option \<Rightarrow> (worker \<times> pool) option" where
  "getWorker p pick =
     (case getWorker_first p of
        (w, waiting, p1) \<Rightarrow>
          if waiting
          then (if freeSignal p1 = 0 then None
                else getWorker_loop (p1\<lparr>freeSignal := freeSignal p1 - 1\<rparr>))
          else Some (getWorker_fresh pick p1))"

text \<open>
  \<open>putWorker\<close>: the send on \<open>freeSignal\<close> blocks when the buffer is full, and then the
  call never returns.
\<close>

definition putWorker :: "pool \<Rightarrow> worker \<Rightarrow> pool option" where
  "putWorker p worker =
     (let p1 = workerPool_Put worker p;
          p2 = p1\<lparr>workers := workers p1 @ [worker]\<rparr>
      in if freeSignal p2 < MaxInt32 then Some (p2\<lparr>freeSignal := freeSignal p2 + 1\<rparr>)
         else None)"

text \<open>
  Modelled from the spec: the end of the loop of \<open>Worker.run\<close>, which is not in the
  sources at hand. The task done, the worker calls \<open>putWorker\<close> on itself; when that
  call has returned it holds no task and is back at its receive. When the call does
  not return, neither does the worker.
\<close>

definition Worker_return :: "worker \<Rightarrow> pool \<Rightarrow> pool option" where
  "Worker_return w p =
     (case putWorker p w of
        None \<Rightarrow> None
      | Some p1 \<Rightarrow> Some (p1\<lparr>busy := removeAll w (busy p1)\<rparr>))"

text \<open>
  \<open>Push\<close> returns the error (\<open>None\<close> is Go's \<open>nil\<close>) and the pool, when it returns. It
  does not return when \<open>getWorker\<close> does not, nor when the hand-off does not get through.
\<close>

definition Push :: "pool \<Rightarrow> task \<Rightarrow> nat option \<Rightarrow> (error option \<times> pool) option" where
  "Push p t pick =
     (if closed p = 1 then Some (Some PoolClosedError, p)
      else case getWorker p pick of
             None \<Rightarrow> None
           | Some (w, p1) \<Rightarrow>
               (case sendTask w t p1 of
                  None \<Rightarrow> None
                | Some p2 \<Rightarrow> Some (None, p2)))"

subsection \<open>The body of the sweeper's loop\<close>

text \<open>
  One pass of the body of \<open>for range ticker.C\<close> in \<open>scanAndClean\<close>: when the pool is
  closed, every worker in the idle slice is told to stop, in the order of the slice.
  Whether the body ever runs is a matter of the ticker and is not modelled.
\<close>

definition scanAndClean_body :: "pool \<Rightarrow> pool" where
  "scanAndClean_body p = (if closed p = 1 then fold Worker_stop (workers p) p else p)"

subsection \<open>Calls that wait and are taken up again\<close>

text \<open>
  Where a call of \<open>getWorker\<close> stands when it does not go on: it has its worker, or it
  waits at the receive \<open><-p.freeSignal\<close>, or it is in the \<open>for\<close> loop and has just found
  the slice empty.
\<close>

datatype gcall = Got worker | WaitRecv | WaitLoop

text \<open>One pass of the \<open>for\<close> loop: a critical section that pops the last worker, if any.\<close>

definition getWorker_pass :: "pool \<Rightarrow> gcall \<times> pool" where
  "getWorker_pass p =
     (let ws = workers p; l = int (length ws) - 1
      in if l < 0 then (WaitLoop, p)
         else (Got (ws ! nat l), p\<lparr>workers := take (nat l) ws\<rparr>))"

text \<open>The receive on \<open>freeSignal\<close>, followed by the first pass of the loop.\<close>

definition getWorker_recv :: "pool \<Rightarrow> gcall \<times> pool" where
  "getWorker_recv p =
     (if freeSignal p = 0 then (WaitRecv, p)
      else getWorker_pass (p\<lparr>freeSignal := freeSignal p - 1\<rparr>))"

text \<open>\<open>getWorker\<close> from its entry to its return or to the first point where it waits.\<close>

definition getWorker_begin :: "pool \<Rightarrow> nat option \<Rightarrow> gcall \<times> pool" where
  "getWorker_begin p pick =
     (case getWorker_first p of
        (w, waiting, p1) \<Rightarrow>
          if waiting then getWorker_recv p1
          else (case getWorker_fresh pick p1 of (w1, p2) \<Rightarrow> (Got w1, p2)))"

text \<open>
  Where a call of \<open>Push\<close> stands: it has returned, with its error; or it waits in
  \<open>getWorker\<close>, at the receive or in the loop; or it waits in \<open>sendTask\<close> for its worker
  to be ready.
\<close>

datatype call = Done "error option" | AtRecv task | AtLoop task | AtSend worker task

definition Push_send :: "worker \<Rightarrow> task \<Rightarrow> pool \<Rightarrow> call \<times> pool" where
  "Push_send w t p =
     (case sendTask w t p of None \<Rightarrow> (AtSend w t, p) | Some p1 \<Rightarrow> (Done None, p1))"

definition Push_take :: "gcall \<times> pool \<Rightarrow> task \<Rightarrow> call \<times> pool" where
  "Push_take gp t =
     (case gp of
        (Got w, p) \<Rightarrow> Push_send w t p
      | (WaitRecv, p) \<Rightarrow> (AtRecv t, p)
      | (WaitLoop, p) \<Rightarrow> (AtLoop t, p))"

text \<open>\<open>Push\<close> from its entry to its return or to the first point where it waits.\<close>

definition Push_begin :: "pool \<Rightarrow> task \<Rightarrow> nat option \<Rightarrow> call \<times> pool" where
  "Push_begin p t pick =
     (if closed p = 1 then (Done (Some PoolClosedError), p)
      else Push_take (getWorker_begin p pick) t)"

text \<open>A waiting call taken up again, to its return or to the next point where it waits.\<close>

definition Push_resume :: "call \<Rightarrow> pool \<Rightarrow> call \<times> pool" where
  "Push_resume c p =
     (case c of
        Done e \<Rightarrow> (Done e, p)
      | AtRecv t \<Rightarrow> Push_take (getWorker_recv p) t
      | AtLoop t \<Rightarrow> Push_take (getWorker_pass p) t
      | AtSend w t \<Rightarrow> Push_send w t p)"

subsection \<open>Runs of operations\<close>

text \<open>
  A run applies operations one after the other, each to completion; it stops with
  \<open>None\<close> at an operation that panics or never returns. \<open>putWorker\<close> is called by
  workers only, at the end of their loop, so the operation \<open>OpPutWorker w\<close> is
  \<open>Worker_return w\<close>: worker \<open>w\<close> calls \<open>putWorker\<close> on itself and goes back to its
  receive.
\<close>

datatype op =
    OpPush task "nat option"
  | OpGetWorker "nat option"
  | OpPutWorker worker
  | OpReSize go_int
  | OpRelease

fun step :: "op \<Rightarrow> pool \<Rightarrow> pool option" where
  "step (OpPush t pick) p = map_option snd (Push p t pick)"
| "step (OpGetWorker pick) p = map_option snd (getWorker p pick)"
| "step (OpPutWorker w) p = Worker_return w p"
| "step (OpReSize n) p = Some (ReSize p n)"
| "step OpRelease p = (case Release p of Inl e \<Rightarrow> None | Inr p1 \<Rightarrow> Some p1)"

fun exec :: "op list \<Rightarrow> pool \<Rightarrow> pool option" where
  "exec [] p = Some p"
| "exec (x # xs) p = (case step x p of None \<Rightarrow> None | Some p1 \<Rightarrow> exec xs p1)"

text \<open>
  A run of several goroutines keeps, beside the pool, the calls of \<open>Push\<close> made so far,
  each with the point where it stands. \<open>Submit\<close> is a goroutine calling \<open>Push\<close>; \<open>Wake\<close>
  lets the scheduler take up the call with the given number; the other events are the
  operations above. A \<open>Push\<close> that waits does not stop the run: it is parked.
\<close>

datatype event =
    Submit task "nat option"
  | Wake nat
  | Other op

fun cstep :: "event \<Rightarrow> pool \<times> call list \<Rightarrow> (pool \<times> call list) option" where
  "cstep (Submit t pick) (p, cs) =
     (case Push_begin p t pick of (c, q) \<Rightarrow> Some (q, cs @ [c]))"
| "cstep (Wake i) (p, cs) =
     (if i < length cs
      then (case Push_resume (cs ! i) p of (c, q) \<Rightarrow> Some (q, cs[i := c]))
      else None)"
| "cstep (Other x) (p, cs) = (case step x p of None \<Rightarrow> None | Some q \<Rightarrow> Some (q, cs))"

fun crun :: "event list \<Rightarrow> pool \<times> call list \<Rightarrow> (pool \<times> call list) option" where
  "crun [] s = Some s"
| "crun (x # xs) s = (case cstep x s of None \<Rightarrow> None | Some s1 \<Rightarrow> crun xs s1)"

section \<open>Properties\<close>

subsection \<open>Conversions between \<open>int\<close> and \<open>int32\<close>\<close>

lemma sint_of_int_len:
  "- (2 ^ (LENGTH('a) - 1)) \<le> k \<Longrightarrow> k < 2 ^ (LENGTH('a) - 1) \<Longrightarrow>
   sint (word_of_int k :: 'a::len word) = k"
  by (simp add: sint_sbintrunc' signed_take_bit_int_eq_self)

lemma sint_sub_len:
  fixes a b :: "'a::len word"
  assumes "- (2 ^ (LENGTH('a) - 1)) \<le> sint a - sint b"
    and "sint a - sint b < 2 ^ (LENGTH('a) - 1)"
  shows "sint (a - b) = sint a - sint b"
proof -
  have "a - b = word_of_int (sint a - sint b)" by simp
  then show ?thesis using sint_of_int_len [OF assms] by simp
qed

lemma ucast_64_32: "(ucast (n :: 64 word) :: 32 word) = scast n"
proof -
  have "(ucast :: 64 word \<Rightarrow> 32 word) = scast"
    by (rule down_cast_same) (simp add: is_down)
  then show ?thesis by simp
qed

lemma sint_scast_32_64: "sint (scast (x :: 32 word) :: 64 word) = sint x"
  by (rule sint_up_scast) (simp add: is_up)

lemma sint_32_bounds: "- 2147483648 \<le> sint (x :: 32 word) \<and> sint x \<le> 2147483647"
  using sint_greater_eq [of x] sint_less [of x] by simp

lemma sint_ucast_64_32:
  "- 2147483648 \<le> sint (n :: 64 word) \<Longrightarrow> sint n \<le> 2147483647 \<Longrightarrow>
   sint (ucast n :: 32 word) = sint n"
  by (simp add: ucast_64_32 signed_scast_eq signed_take_bit_int_eq_self)

lemma scast_ucast_inrange:
  assumes "- 2147483648 \<le> sint (n :: 64 word)" and "sint n \<le> 2147483647"
  shows "(scast (ucast n :: 32 word) :: 64 word) = n"
proof -
  have "sint (scast (ucast n :: 32 word) :: 64 word) = sint n"
    using assms by (simp add: sint_scast_32_64 sint_ucast_64_32)
  then show ?thesis by (rule signed_word_eqI)
qed

text \<open>The definitions to unfold when a run is evaluated on a concrete pool.\<close>

lemmas run_defs =
  NewPool_def word_sle_eq word_sless_alt Push_def getWorker_def getWorker_first_def
  getWorker_fresh_def workerPool_Get_def workerPool_Put_def Worker_run_def sendTask_def
  Worker_ready_def Worker_return_def Worker_stop_def scanAndClean_body_def
  putWorker_def MaxInt32_def ReSize_def Release_def Free_def Cap_def Running_def Let_def
  getWorker_pass_def getWorker_recv_def getWorker_begin_def Push_send_def Push_take_def
  Push_begin_def Push_resume_def

subsection \<open>What \<open>getWorker\<close> computes\<close>

lemma nat_int_pred: "nat (int n - 1) = n - 1"
  by arith

lemma workers_update_empty: "workers p = [] \<Longrightarrow> p\<lparr>workers := []\<rparr> = p"
  by (cases p) simp

text \<open>The loop returns only from a non-empty slice, so on an empty one it never returns.\<close>

lemma getWorker_loop_Some_nonempty:
  assumes "getWorker_loop p = Some y"
  shows "workers p \<noteq> []"
  by (rule getWorker_loop.raw_induct [OF _ assms]) (auto simp: Let_def split: if_splits)

lemma getWorker_loop_empty: "workers p = [] \<Longrightarrow> getWorker_loop p = None"
  using getWorker_loop_Some_nonempty [of p] by (cases "getWorker_loop p") auto

lemma getWorker_loop_pop:
  "workers p \<noteq> [] \<Longrightarrow>
   getWorker_loop p = Some (last (workers p), p\<lparr>workers := butlast (workers p)\<rparr>)"
  by (subst getWorker_loop.simps)
     (simp add: Let_def last_conv_nth butlast_conv_take nat_int_pred)

text \<open>
  A call of \<open>getWorker\<close> with nobody else at work: it never returns when the slice is
  empty and \<open>running \<ge> capacity\<close>; in every other case, the slice being empty or not, it
  drops the top of the slice and returns what the cache or the allocation gives.
\<close>

lemma getWorker_eq:
  "getWorker p pick =
     (if workers p = [] \<and> capacity p \<le>s running p then None
      else Some (getWorker_fresh pick (p\<lparr>workers := butlast (workers p)\<rparr>)))"
  by (auto simp: getWorker_def getWorker_first_def Let_def getWorker_loop_empty
       butlast_conv_take nat_int_pred workers_update_empty)

lemma getWorker_fresh_eq:
  "getWorker_fresh pick p =
     (case pick of
        Some i \<Rightarrow>
          if i < length (workerPool p)
          then (workerPool p ! i,
                p\<lparr>workerPool := take i (workerPool p) @ drop (Suc i) (workerPool p)\<rparr>)
          else (length (started p),
                p\<lparr>started := started p @ [length (started p)], running := running p + 1\<rparr>)
      | None \<Rightarrow>
          (length (started p),
           p\<lparr>started := started p @ [length (started p)], running := running p + 1\<rparr>))"
  by (simp add: getWorker_fresh_def workerPool_Get_def Worker_run_def Let_def
      split: option.splits)

subsection \<open>The closed flag and the release channel along a run\<close>

lemma getWorker_fresh_closed:
  "closed (snd (getWorker_fresh pick p)) = closed p \<and>
   release (snd (getWorker_fresh pick p)) = release p"
  by (simp add: getWorker_fresh_eq split: option.splits)

lemma getWorker_closed:
  "getWorker p pick = Some (w, p1) \<Longrightarrow> closed p1 = closed p \<and> release p1 = release p"
  using getWorker_fresh_closed [of pick "p\<lparr>workers := butlast (workers p)\<rparr>"]
  by (auto simp: getWorker_eq split: if_splits)

lemma sendTask_frame:
  "sendTask w t q = Some p1 \<Longrightarrow>
   closed p1 = closed q \<and> release p1 = release q \<and> running p1 = running q \<and>
   started p1 = started q"
  by (auto simp: sendTask_def split: if_splits)

lemma Worker_return_frame:
  "Worker_return w p = Some p1 \<Longrightarrow>
   closed p1 = closed p \<and> release p1 = release p \<and> running p1 = running p \<and>
   started p1 = started p"
  by (auto simp: Worker_return_def putWorker_def workerPool_Put_def Let_def
      split: option.splits if_splits)

lemma Push_closed:
  assumes "Push p t pick = Some (e, p1)"
  shows "closed p1 = closed p \<and> release p1 = release p"
proof (cases "closed p = 1")
  case True
  with assms show ?thesis by (simp add: Push_def)
next
  case False
  with assms obtain w q where g: "getWorker p pick = Some (w, q)"
    and s: "sendTask w t q = Some p1"
    by (auto simp: Push_def split: option.splits)
  from sendTask_frame [OF s] getWorker_closed [OF g] show ?thesis by simp
qed

lemma step_closed:
  "step x p = Some p1 \<Longrightarrow> closed p = 1 \<Longrightarrow> closed p1 = 1"
proof (cases x)
  case (OpPush t pick)
  assume "step x p = Some p1" and "closed p = 1"
  with OpPush show ?thesis by (auto dest: Push_closed)
next
  case (OpGetWorker pick)
  assume "step x p = Some p1" and "closed p = 1"
  with OpGetWorker show ?thesis by (auto dest: getWorker_closed)
next
  case (OpPutWorker w)
  assume "step x p = Some p1" and "closed p = 1"
  with OpPutWorker show ?thesis by (auto dest: Worker_return_frame)
next
  case (OpReSize n)
  assume "step x p = Some p1" and "closed p = 1"
  with OpReSize show ?thesis by (auto simp: ReSize_def)
next
  case OpRelease
  assume "step x p = Some p1" and "closed p = 1"
  with OpRelease show ?thesis
    by (auto simp: Release_def Let_def split: chan_state.splits)
qed

lemma step_release:
  "step x p = Some p1 \<Longrightarrow> release p = ChanClosed \<Longrightarrow> release p1 = ChanClosed"
proof (cases x)
  case (OpPush t pick)
  assume "step x p = Some p1" and "release p = ChanClosed"
  with OpPush show ?thesis by (auto dest: Push_closed)
next
  case (OpGetWorker pick)
  assume "step x p = Some p1" and "release p = ChanClosed"
  with OpGetWorker show ?thesis by (auto dest: getWorker_closed)
next
  case (OpPutWorker w)
  assume "step x p = Some p1" and "release p = ChanClosed"
  with OpPutWorker show ?thesis by (auto dest: Worker_return_frame)
next
  case (OpReSize n)
  assume "step x p = Some p1" and "release p = ChanClosed"
  with OpReSize show ?thesis by (auto simp: ReSize_def)
next
  case OpRelease
  assume "step x p = Some p1" and "release p = ChanClosed"
  with OpRelease show ?thesis
    by (auto simp: Release_def Let_def split: chan_state.splits)
qed

lemma exec_closed:
  "exec ops p = Some p1 \<Longrightarrow> closed p = 1 \<Longrightarrow> closed p1 = 1"
  by (induction ops arbitrary: p) (auto split: option.splits dest: step_closed)

lemma exec_release:
  "exec ops p = Some p1 \<Longrightarrow> release p = ChanClosed \<Longrightarrow> release p1 = ChanClosed"
  by (induction ops arbitrary: p) (auto split: option.splits dest: step_release)

lemma Release_Inr:
  "Release p = Inr p1 \<Longrightarrow>
   release p = ChanOpen \<and> p1 = p\<lparr>closed := 1, release := ChanClosed\<rparr>"
  by (auto simp: Release_def Let_def split: chan_state.splits)

subsection \<open>The running counter along a run\<close>











subsection \<open>What a call computes up to the point where it waits\<close>

lemma getWorker_pass_eq:
  "getWorker_pass p =
     (if workers p = [] then (WaitLoop, p)
      else (Got (last (workers p)), p\<lparr>workers := butlast (workers p)\<rparr>))"
  by (simp add: getWorker_pass_def Let_def last_conv_nth butlast_conv_take nat_int_pred)

lemma getWorker_recv_eq:
  "getWorker_recv p =
     (if freeSignal p = 0 then (WaitRecv, p)
      else if workers p = [] then (WaitLoop, p\<lparr>freeSignal := freeSignal p - 1\<rparr>)
      else (Got (last (workers p)),
            p\<lparr>freeSignal := freeSignal p - 1, workers := butlast (workers p)\<rparr>))"
  by (simp add: getWorker_recv_def getWorker_pass_eq)

lemma getWorker_begin_eq:
  "getWorker_begin p pick =
     (if workers p = [] \<and> capacity p \<le>s running p
      then (if freeSignal p = 0 then (WaitRecv, p)
            else (WaitLoop, p\<lparr>freeSignal := freeSignal p - 1\<rparr>))
      else (Got (fst (getWorker_fresh pick (p\<lparr>workers := butlast (workers p)\<rparr>))),
            snd (getWorker_fresh pick (p\<lparr>workers := butlast (workers p)\<rparr>))))"
  by (auto simp: getWorker_begin_def getWorker_first_def Let_def getWorker_recv_eq
       butlast_conv_take nat_int_pred workers_update_empty split: prod.splits)

lemma getWorker_begin_link:
  "getWorker p pick =
     (case getWorker_begin p pick of (Got w, q) \<Rightarrow> Some (w, q) | _ \<Rightarrow> None)"
  by (simp add: getWorker_eq getWorker_begin_eq)

lemma Push_send_eq:
  "Push_send w t p =
     (if Worker_ready p w
      then (Done None, p\<lparr>inbox := inbox p @ [(w, t)], busy := w # busy p\<rparr>)
      else (AtSend w t, p))"
  by (simp add: Push_send_def sendTask_def)

lemma Push_begin_link:
  "Push p t pick =
     (case Push_begin p t pick of (Done e, q) \<Rightarrow> Some (e, q) | _ \<Rightarrow> None)"
  by (simp add: Push_def Push_begin_def getWorker_eq getWorker_begin_eq Push_take_def
      Push_send_def split: option.splits prod.splits)

lemma Push_begin_open:
  "closed p \<noteq> 1 \<Longrightarrow>
   Push_begin p t pick =
     (if workers p = [] \<and> capacity p \<le>s running p
      then (if freeSignal p = 0 then (AtRecv t, p)
            else (AtLoop t, p\<lparr>freeSignal := freeSignal p - 1\<rparr>))
      else (case getWorker_fresh pick (p\<lparr>workers := butlast (workers p)\<rparr>) of
              (w, q) \<Rightarrow>
                if Worker_ready q w
                then (Done None, q\<lparr>inbox := inbox q @ [(w, t)], busy := w # busy q\<rparr>)
                else (AtSend w t, q)))"
  by (simp add: Push_begin_def getWorker_begin_eq Push_take_def Push_send_eq
      split: prod.splits)

lemma Push_resume_eq:
  "Push_resume (AtSend w t) p = Push_send w t p"
  "Push_resume (AtLoop t) p =
     (if workers p = [] then (AtLoop t, p)
      else Push_send (last (workers p)) t (p\<lparr>workers := butlast (workers p)\<rparr>))"
  "Push_resume (AtRecv t) p =
     (if freeSignal p = 0 then (AtRecv t, p)
      else Push_resume (AtLoop t) (p\<lparr>freeSignal := freeSignal p - 1\<rparr>))"
  "Push_resume (Done e) p = (Done e, p)"
  by (simp_all add: Push_resume_def Push_take_def getWorker_pass_eq getWorker_recv_def)

lemma Push_resume_no_error:
  "Push_resume c p = (Done (Some e), q) \<Longrightarrow> c = Done (Some e)"
  by (cases c)
     (auto simp: Push_resume_eq Push_send_eq split: if_splits)

lemma Push_send_closed:
  "Push_send w t p = (c, q) \<Longrightarrow> closed q = closed p \<and> release q = release p"
  by (auto simp: Push_send_eq split: if_splits)

lemma Push_resume_closed:
  "Push_resume c p = (c1, q) \<Longrightarrow> closed q = closed p \<and> release q = release p"
  by (cases c)
     (auto simp: Push_resume_eq Push_send_eq split: if_splits)

lemma Push_begin_closed:
  "Push_begin p t pick = (c, q) \<Longrightarrow> closed q = closed p \<and> release q = release p"
proof (cases "closed p = 1")
  case True
  assume "Push_begin p t pick = (c, q)"
  with True show ?thesis by (simp add: Push_begin_def)
next
  case False
  assume a: "Push_begin p t pick = (c, q)"
  have "closed (snd (getWorker_fresh pick (p\<lparr>workers := butlast (workers p)\<rparr>))) = closed p \<and>
     release (snd (getWorker_fresh pick (p\<lparr>workers := butlast (workers p)\<rparr>))) = release p"
    using getWorker_fresh_closed [of pick "p\<lparr>workers := butlast (workers p)\<rparr>"] by simp
  with a False show ?thesis
    by (auto simp: Push_begin_open split: if_splits prod.splits)
qed

lemma cstep_closed:
  "cstep x (p, cs) = Some (q, cs1) \<Longrightarrow> closed p = 1 \<Longrightarrow> closed q = 1"
proof (cases x)
  case (Submit t pick)
  assume "cstep x (p, cs) = Some (q, cs1)" and "closed p = 1"
  with Submit show ?thesis by (auto split: prod.splits dest: Push_begin_closed)
next
  case (Wake i)
  assume "cstep x (p, cs) = Some (q, cs1)" and "closed p = 1"
  with Wake show ?thesis by (auto split: prod.splits if_splits dest: Push_resume_closed)
next
  case (Other y)
  assume "cstep x (p, cs) = Some (q, cs1)" and "closed p = 1"
  with Other show ?thesis by (auto split: option.splits dest: step_closed)
qed

lemma crun_closed:
  "crun evs (p, cs) = Some (q, cs1) \<Longrightarrow> closed p = 1 \<Longrightarrow> closed q = 1"
proof (induction evs arbitrary: p cs)
  case Nil
  then show ?case by simp
next
  case (Cons x xs)
  from Cons.prems(1) obtain p' cs' where s: "cstep x (p, cs) = Some (p', cs')"
    and r: "crun xs (p', cs') = Some (q, cs1)"
    by (auto split: option.splits)
  from cstep_closed [OF s Cons.prems(2)] have "closed p' = 1" .
  with Cons.IH [OF r] show ?case .
qed

lemma scanAndClean_body_eq:
  "scanAndClean_body p = (if closed p = 1 then p\<lparr>stopped := stopped p @ workers p\<rparr> else p)"
proof -
  have "fold Worker_stop ws q = q\<lparr>stopped := stopped q @ ws\<rparr>" for ws q
    by (induction ws arbitrary: q) (simp_all add: Worker_stop_def)
  then show ?thesis by (simp add: scanAndClean_body_def)
qed

subsection \<open>Construction\<close>

text \<open>
  C5, as stated, fails: \<open>NewPool\<close> stores \<open>int32(size)\<close>, so a positive size beyond the
  \<open>int32\<close> range yields a pool whose capacity is not that size. At \<open>size = 2^32\<close> the
  pool is built and its capacity reads 0.
\<close>

theorem NewPool_capacity_counterexample:
  "0 <s (4294967296 :: go_int) \<and> map_sum id Cap (NewPool 4294967296) = Inr 0"
  by (simp add: run_defs)

text \<open>
  C5, amended: \<open>NewPool\<close> fails with \<open>PoolSizeInvalidError\<close> exactly when
  \<open>size \<le> 0\<close>; for every \<open>size > 0\<close> it returns a pool with an empty idle stack and an
  empty cache, \<open>running = 0\<close>, \<open>closed = 0\<close>, and with the capacity \<open>int32(size)\<close>, which
  reads back as \<open>size\<close> whenever \<open>size \<le> 2^31 - 1\<close>.
\<close>

theorem NewPool_result:
  "(NewPool n = Inl PoolSizeInvalidError \<longleftrightarrow> n \<le>s 0) \<and>
   (0 <s n \<longrightarrow>
      (\<exists>p. NewPool n = Inr p \<and> capacity p = ucast n \<and> workers p = [] \<and> workerPool p = [] \<and>
           running p = 0 \<and> closed p = 0 \<and> (n \<le>s 2147483647 \<longrightarrow> Cap p = n)))"
  by (auto simp: NewPool_def word_sle_eq word_sless_alt Cap_def scast_ucast_inrange)

theorem NewPool_result_witness:
  "0 <s (4 :: go_int) \<and> (4 :: go_int) \<le>s 2147483647 \<and> \<not> (4 :: go_int) \<le>s 0 \<and>
   NewPool 4 \<noteq> Inl PoolSizeInvalidError \<and>
   (\<exists>p. NewPool 4 = Inr p \<and> capacity p = 4 \<and> workers p = [] \<and> workerPool p = [] \<and>
        running p = 0 \<and> closed p = 0 \<and> Cap p = 4)"
  using NewPool_result [of 4] by (simp add: word_sle_eq word_sless_alt)

subsection \<open>The counters\<close>

text \<open>
  C8, as stated, fails: \<open>Free\<close> subtracts in \<open>int32\<close>, \<open>Cap() - Running()\<close> subtracts in
  \<open>int\<close>. After \<open>NewPool(1)\<close>, one \<open>Push\<close> (one worker running) and
  \<open>ReSize(-2147483648)\<close>, \<open>Free()\<close> is \<open>2147483647\<close> while \<open>Cap() - Running()\<close> is
  \<open>-2147483649\<close>.
\<close>

theorem Free_wraps_counterexample:
  "map_option (\<lambda>p. (Free p, Cap p - Running p))
     (exec [OpPush 0 None, OpReSize (- 2147483648)] (projr (NewPool 1)))
   = Some (2147483647, - 2147483649)"
  by (simp add: run_defs)

text \<open>
  C8, amended: in every pool state in which \<open>capacity - running\<close> lies in the \<open>int32\<close>
  range, \<open>Free()\<close> is exactly \<open>Cap() - Running()\<close>, with no clamping: it is negative
  whenever the capacity is below the running count.
\<close>

theorem Free_eq_Cap_minus_Running:
  assumes "- 2147483648 \<le> sint (capacity p) - sint (running p)"
    and "sint (capacity p) - sint (running p) \<le> 2147483647"
  shows "Free p = Cap p - Running p \<and> (capacity p <s running p \<longrightarrow> Free p <s 0)"
proof -
  have f: "sint (Free p) = sint (capacity p) - sint (running p)"
    using assms by (simp add: Free_def sint_scast_32_64 sint_sub_len)
  have b: "- 2147483648 \<le> sint (capacity p) \<and> sint (capacity p) \<le> 2147483647"
    "- 2147483648 \<le> sint (running p) \<and> sint (running p) \<le> 2147483647"
    by (rule sint_32_bounds)+
  have "sint (Cap p - Running p) = sint (Cap p) - sint (Running p)"
    using b by (intro sint_sub_len) (simp_all add: Cap_def Running_def sint_scast_32_64)
  then have "sint (Free p) = sint (Cap p - Running p)"
    using f by (simp add: Cap_def Running_def sint_scast_32_64)
  then have "Free p = Cap p - Running p" by (rule signed_word_eqI)
  moreover have "capacity p <s running p \<longrightarrow> Free p <s 0"
    using f by (simp add: word_sless_alt)
  ultimately show ?thesis by simp
qed

text \<open>
  The witness is the pool after \<open>NewPool(2)\<close>, two calls of \<open>Push\<close> and \<open>ReSize(1)\<close>:
  the capacity is 1, the running count 2, and \<open>Free()\<close> is \<open>-1\<close>.
\<close>

theorem Free_eq_Cap_minus_Running_witness:
  "exec [OpPush 0 None, OpPush 1 None, OpReSize 1] (projr (NewPool 2)) \<noteq> None \<and>
   capacity (the (exec [OpPush 0 None, OpPush 1 None, OpReSize 1] (projr (NewPool 2)))) <s
     running (the (exec [OpPush 0 None, OpPush 1 None, OpReSize 1] (projr (NewPool 2)))) \<and>
   Free (the (exec [OpPush 0 None, OpPush 1 None, OpReSize 1] (projr (NewPool 2)))) = - 1 \<and>
   Cap (the (exec [OpPush 0 None, OpPush 1 None, OpReSize 1] (projr (NewPool 2)))) -
     Running (the (exec [OpPush 0 None, OpPush 1 None, OpReSize 1] (projr (NewPool 2)))) = - 1 \<and>
   Free (the (exec [OpPush 0 None, OpPush 1 None, OpReSize 1] (projr (NewPool 2)))) <s 0"
  using Free_eq_Cap_minus_Running
    [of "the (exec [OpPush 0 None, OpPush 1 None, OpReSize 1] (projr (NewPool 2)))"]
  by (simp add: run_defs)

subsection \<open>\<open>ReSize\<close>\<close>

text \<open>
  C9, as stated, fails: \<open>ReSize\<close> stores \<open>int32(size)\<close>, so a size outside the \<open>int32\<close>
  range is not the capacity afterwards. \<open>ReSize(2^32)\<close> leaves the capacity 0.
\<close>

theorem ReSize_capacity_counterexample:
  "Cap (ReSize (projr (NewPool 1)) 4294967296) = 0"
  by (simp add: run_defs)

text \<open>
  C9, amended: for every \<open>size\<close>, zero and negative ones included, \<open>ReSize(size)\<close>
  replaces the capacity with \<open>int32(size)\<close>, which reads back as \<open>size\<close> whenever
  \<open>size\<close> lies in the \<open>int32\<close> range, and changes nothing else: the running counter, the
  closed flag, the idle stack, the cache, the two channels, the started workers, the
  tasks handed out, and the workers at work or stopped are as before.
\<close>

theorem ReSize_frame:
  "running (ReSize p n) = running p \<and> closed (ReSize p n) = closed p \<and>
   workers (ReSize p n) = workers p \<and> workerPool (ReSize p n) = workerPool p \<and>
   started (ReSize p n) = started p \<and> inbox (ReSize p n) = inbox p \<and>
   freeSignal (ReSize p n) = freeSignal p \<and> release (ReSize p n) = release p \<and>
   busy (ReSize p n) = busy p \<and> stopped (ReSize p n) = stopped p \<and>
   capacity (ReSize p n) = ucast n \<and>
   (- 2147483648 \<le>s n \<and> n \<le>s 2147483647 \<longrightarrow> Cap (ReSize p n) = n)"
  by (simp add: ReSize_def Cap_def word_sle_eq scast_ucast_inrange)

theorem ReSize_frame_witness:
  "- 2147483648 \<le>s (- 5 :: go_int) \<and> (- 5 :: go_int) \<le>s 2147483647 \<and>
   Cap (ReSize (projr (NewPool 1)) (- 5)) = - 5 \<and>
   running (ReSize (projr (NewPool 1)) (- 5)) = 0 \<and>
   workers (ReSize (projr (NewPool 1)) (- 5)) = []"
  using ReSize_frame [of "projr (NewPool 1)" "- 5"] by (simp add: run_defs)

subsection \<open>\<open>Release\<close>\<close>

text \<open>
  C4: on a pool whose release channel is open, \<open>Release\<close> sets \<open>closed\<close> to 1 and closes
  the channel, once. It is not safe to call twice: on every pool on which \<open>Release\<close> has
  returned, and after any run of further operations, the flag is still set, the channel
  is still closed, and a second \<open>Release\<close> panics on closing the closed channel.
\<close>

theorem Release_second_call_panics:
  "(release p = ChanOpen \<longrightarrow> Release p = Inr (p\<lparr>closed := 1, release := ChanClosed\<rparr>)) \<and>
   (Release p = Inr p1 \<and> exec ops p1 = Some p2 \<longrightarrow>
      closed p2 = 1 \<and> release p2 = ChanClosed \<and> Release p2 = Inl CloseOfClosedChannel)"
proof -
  have a: "release p = ChanOpen \<longrightarrow> Release p = Inr (p\<lparr>closed := 1, release := ChanClosed\<rparr>)"
    by (simp add: Release_def)
  have b: "closed p2 = 1 \<and> release p2 = ChanClosed \<and> Release p2 = Inl CloseOfClosedChannel"
    if r: "Release p = Inr p1" and e: "exec ops p1 = Some p2"
  proof -
    from r have "closed p1 = 1" "release p1 = ChanClosed"
      by (auto dest: Release_Inr)
    with e have "closed p2 = 1" "release p2 = ChanClosed"
      by (auto dest: exec_closed exec_release)
    then show ?thesis by (simp add: Release_def)
  qed
  from a b show ?thesis by blast
qed

theorem Release_second_call_panics_witness:
  "release (projr (NewPool 1)) = ChanOpen \<and>
   Release (projr (NewPool 1)) = Inr ((projr (NewPool 1))\<lparr>closed := 1, release := ChanClosed\<rparr>) \<and>
   exec [OpReSize 3] ((projr (NewPool 1))\<lparr>closed := 1, release := ChanClosed\<rparr>) =
     Some ((projr (NewPool 1))\<lparr>closed := 1, release := ChanClosed, capacity := 3\<rparr>) \<and>
   Release ((projr (NewPool 1))\<lparr>closed := 1, release := ChanClosed, capacity := 3\<rparr>) =
     Inl CloseOfClosedChannel"
  using Release_second_call_panics
    [of "projr (NewPool 1)" "(projr (NewPool 1))\<lparr>closed := 1, release := ChanClosed\<rparr>"
        "[OpReSize 3]" "(projr (NewPool 1))\<lparr>closed := 1, release := ChanClosed, capacity := 3\<rparr>"]
  by (simp add: run_defs)

subsection \<open>\<open>Push\<close>\<close>

text \<open>
  C3, as stated, fails: a \<open>Push\<close> on a pool that is not closed need not return success.
  After \<open>NewPool(1)\<close> and \<open>ReSize(0)\<close> the idle stack is empty and \<open>running \<ge> capacity\<close>,
  no worker exists that could ever post to \<open>freeSignal\<close>, and \<open>Push\<close> waits for ever.
\<close>

theorem Push_blocks_counterexample:
  "closed (ReSize (projr (NewPool 1)) 0) \<noteq> 1 \<and> Push (ReSize (projr (NewPool 1)) 0) 7 None = None"
  by (simp add: run_defs)

text \<open>
  C3, amended: \<open>Push\<close> returns an error exactly when the closed flag is set at its
  entry, and the error is then \<open>PoolClosedError\<close>, the pool untouched. Otherwise it
  returns no error, neither at once nor when it is taken up again after waiting. On a
  pool that is not closed it waits in \<open>getWorker\<close> when the idle stack is empty and
  \<open>running \<ge> capacity\<close>: at the receive while \<open>freeSignal\<close> holds no unit, then in the loop
  while the idle stack is empty, and it goes on with the worker on top of the idle
  stack. In every other case it goes on with the worker that \<open>getWorker\<close> gave. With
  its worker it waits in the hand-off while that worker is not ready to receive, and
  else hands the task to it and returns success. After \<open>Release\<close> has returned, and
  whatever the goroutines do then, every \<open>Push\<close> fails with \<open>PoolClosedError\<close>.
\<close>

theorem Push_result:
  "(closed p = 1 \<longrightarrow> Push p t pick = Some (Some PoolClosedError, p)) \<and>
   ((\<exists>e q. Push p t pick = Some (Some e, q)) \<longleftrightarrow> closed p = 1) \<and>
   ((\<exists>e q. Push_begin p t pick = (Done (Some e), q)) \<longleftrightarrow> closed p = 1) \<and>
   (Push_resume c p = (Done (Some e), q) \<longrightarrow> c = Done (Some e)) \<and>
   Push p t pick = (case Push_begin p t pick of (Done r, q) \<Rightarrow> Some (r, q) | _ \<Rightarrow> None) \<and>
   (closed p \<noteq> 1 \<and> workers p = [] \<and> capacity p \<le>s running p \<longrightarrow>
      Push_begin p t pick =
        (if freeSignal p = 0 then (AtRecv t, p)
         else (AtLoop t, p\<lparr>freeSignal := freeSignal p - 1\<rparr>))) \<and>
   (closed p \<noteq> 1 \<and> \<not> (workers p = [] \<and> capacity p \<le>s running p) \<longrightarrow>
      (\<exists>v q. getWorker p pick = Some (v, q) \<and>
         Push_begin p t pick =
           (if v \<in> set (started q) \<and> v \<notin> set (busy q) \<and> v \<notin> set (stopped q)
            then (Done None, q\<lparr>inbox := inbox q @ [(v, t)], busy := v # busy q\<rparr>)
            else (AtSend v t, q)))) \<and>
   Push_resume (AtRecv t) p =
     (if freeSignal p = 0 then (AtRecv t, p)
      else Push_resume (AtLoop t) (p\<lparr>freeSignal := freeSignal p - 1\<rparr>)) \<and>
   Push_resume (AtLoop t) p =
     (if workers p = [] then (AtLoop t, p)
      else Push_resume (AtSend (last (workers p)) t) (p\<lparr>workers := butlast (workers p)\<rparr>)) \<and>
   Push_resume (AtSend w t) p =
     (if w \<in> set (started p) \<and> w \<notin> set (busy p) \<and> w \<notin> set (stopped p)
      then (Done None, p\<lparr>inbox := inbox p @ [(w, t)], busy := w # busy p\<rparr>)
      else (AtSend w t, p)) \<and>
   (Release p = Inr pc \<and> crun evs (pc, cs) = Some (pd, ds) \<longrightarrow>
      Push pd t pick = Some (Some PoolClosedError, pd))"
proof -
  have a: "closed p = 1 \<longrightarrow> Push p t pick = Some (Some PoolClosedError, p)"
    by (simp add: Push_def)
  have b: "(\<exists>e q. Push p t pick = Some (Some e, q)) \<longleftrightarrow> closed p = 1"
    by (auto simp: Push_def split: option.splits)
  have o1: "closed p \<noteq> 1 \<and> workers p = [] \<and> capacity p \<le>s running p \<longrightarrow>
      Push_begin p t pick =
        (if freeSignal p = 0 then (AtRecv t, p)
         else (AtLoop t, p\<lparr>freeSignal := freeSignal p - 1\<rparr>))"
    by (simp add: Push_begin_open)
  have o2: "closed p \<noteq> 1 \<and> \<not> (workers p = [] \<and> capacity p \<le>s running p) \<longrightarrow>
      (\<exists>v q. getWorker p pick = Some (v, q) \<and>
         Push_begin p t pick =
           (if v \<in> set (started q) \<and> v \<notin> set (busy q) \<and> v \<notin> set (stopped q)
            then (Done None, q\<lparr>inbox := inbox q @ [(v, t)], busy := v # busy q\<rparr>)
            else (AtSend v t, q)))"
    by (auto simp: Push_begin_open getWorker_eq Worker_ready_def split: prod.splits)
  have b': "(\<exists>e q. Push_begin p t pick = (Done (Some e), q)) \<longleftrightarrow> closed p = 1"
  proof (cases "closed p = 1")
    case True
    then show ?thesis by (simp add: Push_begin_def)
  next
    case False
    then show ?thesis
      by (auto simp: Push_begin_open split: if_splits prod.splits)
  qed
  have c: "Push_resume c p = (Done (Some e), q) \<longrightarrow> c = Done (Some e)"
    by (auto dest: Push_resume_no_error)
  have l: "Push p t pick =
      (case Push_begin p t pick of (Done r, q) \<Rightarrow> Some (r, q) | _ \<Rightarrow> None)"
    by (rule Push_begin_link)
  have r1: "Push_resume (AtRecv t) p =
     (if freeSignal p = 0 then (AtRecv t, p)
      else Push_resume (AtLoop t) (p\<lparr>freeSignal := freeSignal p - 1\<rparr>))"
    by (rule Push_resume_eq)
  have r2: "Push_resume (AtLoop t) p =
     (if workers p = [] then (AtLoop t, p)
      else Push_resume (AtSend (last (workers p)) t) (p\<lparr>workers := butlast (workers p)\<rparr>))"
    by (simp add: Push_resume_eq)
  have r3: "Push_resume (AtSend w t) p =
     (if w \<in> set (started p) \<and> w \<notin> set (busy p) \<and> w \<notin> set (stopped p)
      then (Done None, p\<lparr>inbox := inbox p @ [(w, t)], busy := w # busy p\<rparr>)
      else (AtSend w t, p))"
    by (simp add: Push_resume_eq Push_send_eq Worker_ready_def)
  have d: "Push pd t pick = Some (Some PoolClosedError, pd)"
    if r: "Release p = Inr pc" and e: "crun evs (pc, cs) = Some (pd, ds)"
  proof -
    from r have "closed pc = 1" by (auto dest: Release_Inr)
    with e have "closed pd = 1" by (rule crun_closed)
    then show ?thesis by (simp add: Push_def)
  qed
  from a b b' c l o1 o2 r1 r2 r3 d show ?thesis by blast
qed

text \<open>
  The witness follows a pool of capacity 1. A \<open>Push\<close> of task 7 starts worker 0 and
  returns. A \<open>Push\<close> of task 8 finds no worker and \<open>running = capacity\<close>: it waits at the
  receive, and alone it never returns. Worker 0 comes back; the waiting \<open>Push\<close>, taken
  up again, receives the unit, pops worker 0, hands it task 8 and returns success.
  Worker 0 is then at work and still in the cache: after \<open>ReSize(2)\<close> a \<open>Push\<close> of
  task 9 that gets it from the cache waits in the hand-off. After \<open>Release\<close>, and
  worker 0 having come back, a \<open>Push\<close> fails with \<open>PoolClosedError\<close>.
\<close>

theorem Push_result_witness:
  "Push_begin (projr (NewPool 1)) 7 None =
     (Done None, \<lparr>capacity = 1, running = 1, freeSignal = 0, workers = [],
       workerPool = [], release = ChanOpen, closed = 0, started = [0],
       inbox = [(0, 7)], busy = [0], stopped = []\<rparr>) \<and>
   closed \<lparr>capacity = 1, running = 1, freeSignal = 0, workers = [],
       workerPool = [], release = ChanOpen, closed = 0, started = [0],
       inbox = [(0, 7)], busy = [0], stopped = []\<rparr> \<noteq> 1 \<and>
   Push_begin \<lparr>capacity = 1, running = 1, freeSignal = 0, workers = [],
       workerPool = [], release = ChanOpen, closed = 0, started = [0],
       inbox = [(0, 7)], busy = [0], stopped = []\<rparr> 8 None =
     (AtRecv 8, \<lparr>capacity = 1, running = 1, freeSignal = 0, workers = [],
       workerPool = [], release = ChanOpen, closed = 0, started = [0],
       inbox = [(0, 7)], busy = [0], stopped = []\<rparr>) \<and>
   Push \<lparr>capacity = 1, running = 1, freeSignal = 0, workers = [],
       workerPool = [], release = ChanOpen, closed = 0, started = [0],
       inbox = [(0, 7)], busy = [0], stopped = []\<rparr> 8 None = None \<and>
   Push_resume (AtRecv 8) \<lparr>capacity = 1, running = 1, freeSignal = 1, workers = [0],
       workerPool = [0], release = ChanOpen, closed = 0, started = [0],
       inbox = [(0, 7)], busy = [], stopped = []\<rparr> =
     (Done None, \<lparr>capacity = 1, running = 1, freeSignal = 0, workers = [],
       workerPool = [0], release = ChanOpen, closed = 0, started = [0],
       inbox = [(0, 7), (0, 8)], busy = [0], stopped = []\<rparr>) \<and>
   crun [Submit 7 None, Submit 8 None, Other (OpPutWorker 0), Wake 1]
       (projr (NewPool 1), []) =
     Some (\<lparr>capacity = 1, running = 1, freeSignal = 0, workers = [],
       workerPool = [0], release = ChanOpen, closed = 0, started = [0],
       inbox = [(0, 7), (0, 8)], busy = [0], stopped = []\<rparr>, [Done None, Done None]) \<and>
   Push_begin \<lparr>capacity = 2, running = 1, freeSignal = 0, workers = [],
       workerPool = [0], release = ChanOpen, closed = 0, started = [0],
       inbox = [(0, 7), (0, 8)], busy = [0], stopped = []\<rparr> 9 (Some 0) =
     (AtSend 0 9, \<lparr>capacity = 2, running = 1, freeSignal = 0, workers = [],
       workerPool = [], release = ChanOpen, closed = 0, started = [0],
       inbox = [(0, 7), (0, 8)], busy = [0], stopped = []\<rparr>) \<and>
   Push \<lparr>capacity = 2, running = 1, freeSignal = 0, workers = [],
       workerPool = [0], release = ChanOpen, closed = 0, started = [0],
       inbox = [(0, 7), (0, 8)], busy = [0], stopped = []\<rparr> 9 (Some 0) = None \<and>
   Release \<lparr>capacity = 1, running = 1, freeSignal = 0, workers = [],
       workerPool = [0], release = ChanOpen, closed = 0, started = [0],
       inbox = [(0, 7), (0, 8)], busy = [0], stopped = []\<rparr> =
     Inr \<lparr>capacity = 1, running = 1, freeSignal = 0, workers = [],
       workerPool = [0], release = ChanClosed, closed = 1, started = [0],
       inbox = [(0, 7), (0, 8)], busy = [0], stopped = []\<rparr> \<and>
   crun [Other (OpPutWorker 0), Submit 9 None]
       (\<lparr>capacity = 1, running = 1, freeSignal = 0, workers = [],
       workerPool = [0], release = ChanClosed, closed = 1, started = [0],
       inbox = [(0, 7), (0, 8)], busy = [0], stopped = []\<rparr>, [Done None, Done None]) =
     Some (\<lparr>capacity = 1, running = 1, freeSignal = 1, workers = [0],
       workerPool = [0, 0], release = ChanClosed, closed = 1, started = [0],
       inbox = [(0, 7), (0, 8)], busy = [], stopped = []\<rparr>, [Done None, Done None, Done (Some PoolClosedError)]) \<and>
   Push \<lparr>capacity = 1, running = 1, freeSignal = 1, workers = [0],
       workerPool = [0, 0], release = ChanClosed, closed = 1, started = [0],
       inbox = [(0, 7), (0, 8)], busy = [], stopped = []\<rparr> 9 None =
     Some (Some PoolClosedError, \<lparr>capacity = 1, running = 1, freeSignal = 1, workers = [0],
       workerPool = [0, 0], release = ChanClosed, closed = 1, started = [0],
       inbox = [(0, 7), (0, 8)], busy = [], stopped = []\<rparr>) \<and>
   Push_resume (Done (Some PoolClosedError)) \<lparr>capacity = 1, running = 1, freeSignal = 1, workers = [0],
       workerPool = [0, 0], release = ChanClosed, closed = 1, started = [0],
       inbox = [(0, 7), (0, 8)], busy = [], stopped = []\<rparr> =
     (Done (Some PoolClosedError), \<lparr>capacity = 1, running = 1, freeSignal = 1, workers = [0],
       workerPool = [0, 0], release = ChanClosed, closed = 1, started = [0],
       inbox = [(0, 7), (0, 8)], busy = [], stopped = []\<rparr>)"
  using
    Push_result [where p = "projr (NewPool 1)" and t = 7 and pick = None]
    Push_result [where p = "\<lparr>capacity = 1, running = 1, freeSignal = 0, workers = [],
       workerPool = [], release = ChanOpen, closed = 0, started = [0],
       inbox = [(0, 7)], busy = [0], stopped = []\<rparr>" and t = 8 and pick = None]
    Push_result [where p = "\<lparr>capacity = 1, running = 1, freeSignal = 1, workers = [0],
       workerPool = [0], release = ChanOpen, closed = 0, started = [0],
       inbox = [(0, 7)], busy = [], stopped = []\<rparr>" and t = 8]
    Push_result [where p = "\<lparr>capacity = 2, running = 1, freeSignal = 0, workers = [],
       workerPool = [0], release = ChanOpen, closed = 0, started = [0],
       inbox = [(0, 7), (0, 8)], busy = [0], stopped = []\<rparr>" and t = 9 and pick = "Some 0"]
    Push_result [where p = "\<lparr>capacity = 1, running = 1, freeSignal = 0, workers = [],
       workerPool = [0], release = ChanOpen, closed = 0, started = [0],
       inbox = [(0, 7), (0, 8)], busy = [0], stopped = []\<rparr>"
      and pc = "\<lparr>capacity = 1, running = 1, freeSignal = 0, workers = [],
       workerPool = [0], release = ChanClosed, closed = 1, started = [0],
       inbox = [(0, 7), (0, 8)], busy = [0], stopped = []\<rparr>"
      and evs = "[Other (OpPutWorker 0), Submit 9 None]" and cs = "[Done None, Done None]"
      and pd = "\<lparr>capacity = 1, running = 1, freeSignal = 1, workers = [0],
       workerPool = [0, 0], release = ChanClosed, closed = 1, started = [0],
       inbox = [(0, 7), (0, 8)], busy = [], stopped = []\<rparr>"
      and ds = "[Done None, Done None, Done (Some PoolClosedError)]" and t = 9 and pick = None]
    Push_result [where p = "\<lparr>capacity = 1, running = 1, freeSignal = 1, workers = [0],
       workerPool = [0, 0], release = ChanClosed, closed = 1, started = [0],
       inbox = [(0, 7), (0, 8)], busy = [], stopped = []\<rparr>" and t = 9 and pick = None
      and c = "Done (Some PoolClosedError)" and e = PoolClosedError
      and q = "\<lparr>capacity = 1, running = 1, freeSignal = 1, workers = [0],
       workerPool = [0, 0], release = ChanClosed, closed = 1, started = [0],
       inbox = [(0, 7), (0, 8)], busy = [], stopped = []\<rparr>"]
  by (simp add: run_defs)

subsection \<open>Where the closed flag is read\<close>

text \<open>
  C10, as stated, fails in its last part: the closed flag gates more than the entry
  check of \<open>Push\<close>. The body of the sweeper's loop in \<open>scanAndClean\<close> reads it too: on
  the closed pool that \<open>NewPool(1)\<close>, a \<open>Push\<close>, \<open>Release\<close> and the return of worker 0
  leave, one pass of the body stops the idle worker 0; on the same pool with the flag
  at 0 it stops nobody.
\<close>

theorem sweeper_reads_closed_counterexample:
  "exec [OpPush 7 None, OpRelease, OpPutWorker 0] (projr (NewPool 1)) =
     Some \<lparr>capacity = 1, running = 1, freeSignal = 1, workers = [0],
       workerPool = [0], release = ChanClosed, closed = 1, started = [0],
       inbox = [(0, 7)], busy = [], stopped = []\<rparr> \<and>
   scanAndClean_body \<lparr>capacity = 1, running = 1, freeSignal = 1, workers = [0],
       workerPool = [0], release = ChanClosed, closed = 1, started = [0],
       inbox = [(0, 7)], busy = [], stopped = []\<rparr> =
     \<lparr>capacity = 1, running = 1, freeSignal = 1, workers = [0],
       workerPool = [0], release = ChanClosed, closed = 1, started = [0],
       inbox = [(0, 7)], busy = [], stopped = [0]\<rparr> \<and>
   scanAndClean_body \<lparr>capacity = 1, running = 1, freeSignal = 1, workers = [0],
       workerPool = [0], release = ChanClosed, closed = 0, started = [0],
       inbox = [(0, 7)], busy = [], stopped = []\<rparr> =
     \<lparr>capacity = 1, running = 1, freeSignal = 1, workers = [0],
       workerPool = [0], release = ChanClosed, closed = 0, started = [0],
       inbox = [(0, 7)], busy = [], stopped = []\<rparr>"
  by (simp add: run_defs)

text \<open>
  C10, amended: neither \<open>putWorker\<close> nor \<open>getWorker\<close> reads the closed flag. Whatever
  value the flag has, \<open>putWorker\<close> does the same: unless the buffer of \<open>freeSignal\<close> is
  full, it caches the worker, pushes it onto the idle stack and posts one unit. And
  \<open>getWorker\<close> does the same, at its entry and when it is taken up again after waiting,
  so that on a closed pool it still pops and mints: a pass of its loop pops the top of
  a non-empty idle stack and returns it; a call on a non-empty idle stack returns a
  worker and leaves the stack without its top; a call on an empty idle stack with
  \<open>running < capacity\<close> returns the worker the cache gives or, when the cache gives
  none, starts a new worker and counts it in \<open>running\<close>. The flag decides whether \<open>Push\<close>
  returns \<open>PoolClosedError\<close> at its entry, and a \<open>Push\<close> that is past its entry does not
  read it again; \<open>ReSize\<close> and the three counters do not read it. Apart from the entry
  check of \<open>Push\<close>, the flag gates only the body of the sweeper's loop, which stops the
  idle workers when the pool is closed and does nothing when it is not.
\<close>

theorem closed_flag_use:
  "putWorker (p\<lparr>closed := c\<rparr>) w = map_option (\<lambda>q. q\<lparr>closed := c\<rparr>) (putWorker p w) \<and>
   (freeSignal p < MaxInt32 \<longrightarrow>
      putWorker p w = Some (p\<lparr>workerPool := w # workerPool p, workers := workers p @ [w],
                               freeSignal := freeSignal p + 1\<rparr>)) \<and>
   getWorker (p\<lparr>closed := c\<rparr>) pick =
     map_option (\<lambda>(v, q). (v, q\<lparr>closed := c\<rparr>)) (getWorker p pick) \<and>
   getWorker_begin (p\<lparr>closed := c\<rparr>) pick =
     (\<lambda>(g, q). (g, q\<lparr>closed := c\<rparr>)) (getWorker_begin p pick) \<and>
   getWorker_recv (p\<lparr>closed := c\<rparr>) = (\<lambda>(g, q). (g, q\<lparr>closed := c\<rparr>)) (getWorker_recv p) \<and>
   getWorker_pass (p\<lparr>closed := c\<rparr>) = (\<lambda>(g, q). (g, q\<lparr>closed := c\<rparr>)) (getWorker_pass p) \<and>
   getWorker p pick =
     (case getWorker_begin p pick of (Got v, q) \<Rightarrow> Some (v, q) | _ \<Rightarrow> None) \<and>
   (workers p = [] \<and> capacity p \<le>s running p \<longrightarrow>
      getWorker_begin p pick =
        (if freeSignal p = 0 then (WaitRecv, p)
         else (WaitLoop, p\<lparr>freeSignal := freeSignal p - 1\<rparr>))) \<and>
   getWorker_recv p =
     (if freeSignal p = 0 then (WaitRecv, p)
      else getWorker_pass (p\<lparr>freeSignal := freeSignal p - 1\<rparr>)) \<and>
   (workers p = [] \<longrightarrow> getWorker_pass p = (WaitLoop, p)) \<and>
   (workers p \<noteq> [] \<longrightarrow>
      getWorker_pass p = (Got (last (workers p)), p\<lparr>workers := butlast (workers p)\<rparr>)) \<and>
   (workers p \<noteq> [] \<longrightarrow>
      (\<exists>v q. getWorker p pick = Some (v, q) \<and> workers q = butlast (workers p))) \<and>
   (workers p = [] \<and> running p <s capacity p \<longrightarrow>
      getWorker p None =
        Some (length (started p),
              p\<lparr>started := started p @ [length (started p)], running := running p + 1\<rparr>)) \<and>
   (workers p = [] \<and> running p <s capacity p \<and> i < length (workerPool p) \<longrightarrow>
      getWorker p (Some i) =
        Some (workerPool p ! i,
              p\<lparr>workerPool := take i (workerPool p) @ drop (Suc i) (workerPool p)\<rparr>)) \<and>
   (closed p = 1 \<longrightarrow> Push_begin p t pick = (Done (Some PoolClosedError), p)) \<and>
   (closed p \<noteq> 1 \<and> c \<noteq> 1 \<longrightarrow>
      Push_begin (p\<lparr>closed := c\<rparr>) t pick =
        (\<lambda>(d, q). (d, q\<lparr>closed := c\<rparr>)) (Push_begin p t pick)) \<and>
   Push_resume k (p\<lparr>closed := c\<rparr>) = (\<lambda>(d, q). (d, q\<lparr>closed := c\<rparr>)) (Push_resume k p) \<and>
   scanAndClean_body p =
     (if closed p = 1 then p\<lparr>stopped := stopped p @ workers p\<rparr> else p) \<and>
   ReSize (p\<lparr>closed := c\<rparr>) n = (ReSize p n)\<lparr>closed := c\<rparr> \<and>
   Running (p\<lparr>closed := c\<rparr>) = Running p \<and> Free (p\<lparr>closed := c\<rparr>) = Free p \<and>
   Cap (p\<lparr>closed := c\<rparr>) = Cap p"
proof -
  have send: "Push_send v u (q\<lparr>closed := c\<rparr>) = (\<lambda>(d, q). (d, q\<lparr>closed := c\<rparr>)) (Push_send v u q)"
    for v u q
    by (simp add: Push_send_eq Worker_ready_def)
  have 1: "putWorker (p\<lparr>closed := c\<rparr>) w = map_option (\<lambda>q. q\<lparr>closed := c\<rparr>) (putWorker p w)"
    by (simp add: putWorker_def workerPool_Put_def Let_def)
  have 2: "freeSignal p < MaxInt32 \<longrightarrow>
      putWorker p w = Some (p\<lparr>workerPool := w # workerPool p, workers := workers p @ [w],
                               freeSignal := freeSignal p + 1\<rparr>)"
    by (simp add: putWorker_def workerPool_Put_def Let_def)
  have 3: "getWorker (p\<lparr>closed := c\<rparr>) pick =
     map_option (\<lambda>(v, q). (v, q\<lparr>closed := c\<rparr>)) (getWorker p pick)"
    by (simp add: getWorker_eq getWorker_fresh_eq split: option.splits)
  have 4: "getWorker_begin (p\<lparr>closed := c\<rparr>) pick =
     (\<lambda>(g, q). (g, q\<lparr>closed := c\<rparr>)) (getWorker_begin p pick)"
    by (simp add: getWorker_begin_eq getWorker_fresh_eq split: option.splits)
  have 5: "getWorker_recv (p\<lparr>closed := c\<rparr>) = (\<lambda>(g, q). (g, q\<lparr>closed := c\<rparr>)) (getWorker_recv p)"
    by (simp add: getWorker_recv_eq)
  have 6: "getWorker_pass (p\<lparr>closed := c\<rparr>) = (\<lambda>(g, q). (g, q\<lparr>closed := c\<rparr>)) (getWorker_pass p)"
    by (simp add: getWorker_pass_eq)
  have 16: "getWorker p pick =
     (case getWorker_begin p pick of (Got v, q) \<Rightarrow> Some (v, q) | _ \<Rightarrow> None)"
    by (rule getWorker_begin_link)
  have 17: "workers p = [] \<and> capacity p \<le>s running p \<longrightarrow>
      getWorker_begin p pick =
        (if freeSignal p = 0 then (WaitRecv, p)
         else (WaitLoop, p\<lparr>freeSignal := freeSignal p - 1\<rparr>))"
    by (simp add: getWorker_begin_eq)
  have 18: "getWorker_recv p =
     (if freeSignal p = 0 then (WaitRecv, p)
      else getWorker_pass (p\<lparr>freeSignal := freeSignal p - 1\<rparr>))"
    by (simp add: getWorker_recv_def)
  have 19: "workers p = [] \<longrightarrow> getWorker_pass p = (WaitLoop, p)"
    by (simp add: getWorker_pass_eq)
  have 7: "workers p \<noteq> [] \<longrightarrow>
      getWorker_pass p = (Got (last (workers p)), p\<lparr>workers := butlast (workers p)\<rparr>)"
    by (simp add: getWorker_pass_eq)
  have 8: "workers p \<noteq> [] \<longrightarrow>
      (\<exists>v q. getWorker p pick = Some (v, q) \<and> workers q = butlast (workers p))"
    by (auto simp: getWorker_eq getWorker_fresh_eq split: option.splits)
  have 9: "workers p = [] \<and> running p <s capacity p \<longrightarrow>
      getWorker p None =
        Some (length (started p),
              p\<lparr>started := started p @ [length (started p)], running := running p + 1\<rparr>)"
    by (auto simp: getWorker_eq getWorker_fresh_eq workers_update_empty word_sle_eq
        word_sless_alt)
  have 15: "workers p = [] \<and> running p <s capacity p \<and> i < length (workerPool p) \<longrightarrow>
      getWorker p (Some i) =
        Some (workerPool p ! i,
              p\<lparr>workerPool := take i (workerPool p) @ drop (Suc i) (workerPool p)\<rparr>)"
    by (auto simp: getWorker_eq getWorker_fresh_eq workers_update_empty word_sle_eq
        word_sless_alt)
  have 10: "closed p = 1 \<longrightarrow> Push_begin p t pick = (Done (Some PoolClosedError), p)"
    by (simp add: Push_begin_def)
  have 11: "closed p \<noteq> 1 \<and> c \<noteq> 1 \<longrightarrow>
      Push_begin (p\<lparr>closed := c\<rparr>) t pick =
        (\<lambda>(d, q). (d, q\<lparr>closed := c\<rparr>)) (Push_begin p t pick)"
    using 4 send
    by (auto simp: Push_begin_def Push_take_def split: prod.splits gcall.splits)
  have 12: "Push_resume k (p\<lparr>closed := c\<rparr>) = (\<lambda>(d, q). (d, q\<lparr>closed := c\<rparr>)) (Push_resume k p)"
    using 5 6 send
    by (cases k) (auto simp: Push_resume_def Push_take_def split: prod.splits gcall.splits)
  have 13: "scanAndClean_body p =
     (if closed p = 1 then p\<lparr>stopped := stopped p @ workers p\<rparr> else p)"
    by (rule scanAndClean_body_eq)
  have 14: "ReSize (p\<lparr>closed := c\<rparr>) n = (ReSize p n)\<lparr>closed := c\<rparr> \<and>
   Running (p\<lparr>closed := c\<rparr>) = Running p \<and> Free (p\<lparr>closed := c\<rparr>) = Free p \<and>
   Cap (p\<lparr>closed := c\<rparr>) = Cap p"
    by (simp add: ReSize_def Running_def Free_def Cap_def)
  from 1 2 3 4 5 6 16 17 18 19 7 8 9 15 10 11 12 13 14 show ?thesis by blast
qed

text \<open>
  The witness is a closed pool. On a pool of capacity 1 a \<open>Push\<close> of task 7 starts
  worker 0, a \<open>Push\<close> of task 8 waits at the receive, and \<open>Release\<close> closes the pool.
  On the closed pool \<open>putWorker\<close> takes worker 0 back as on an open one, and worker 0
  is back at its receive. Then a pass of the loop pops worker 0, a call of \<open>getWorker\<close>
  pops too, and the waiting \<open>Push\<close>, taken up again, hands task 8 to worker 0 and
  returns success, while a new \<open>Push\<close> fails. After \<open>ReSize(2)\<close> the closed pool has
  nothing idle and \<open>running < capacity\<close>: \<open>getWorker\<close> starts worker 1, or returns
  worker 0 from the cache. On a fresh pool whose flag is set to 2, \<open>Push\<close> goes on as
  with the flag at 0. A pass of the sweeper's body on the closed pool stops worker 0,
  and the waiting \<open>Push\<close> taken up after it pops worker 0 and waits in the hand-off.
\<close>

theorem closed_flag_use_witness:
  "crun [Submit 7 None, Submit 8 None, Other OpRelease] (projr (NewPool 1), []) =
     Some (\<lparr>capacity = 1, running = 1, freeSignal = 0, workers = [],
       workerPool = [], release = ChanClosed, closed = 1, started = [0],
       inbox = [(0, 7)], busy = [0], stopped = []\<rparr>, [Done None, AtRecv 8]) \<and>
   closed \<lparr>capacity = 1, running = 1, freeSignal = 0, workers = [],
       workerPool = [], release = ChanClosed, closed = 1, started = [0],
       inbox = [(0, 7)], busy = [0], stopped = []\<rparr> = 1 \<and>
   freeSignal \<lparr>capacity = 1, running = 1, freeSignal = 0, workers = [],
       workerPool = [], release = ChanClosed, closed = 1, started = [0],
       inbox = [(0, 7)], busy = [0], stopped = []\<rparr> < MaxInt32 \<and>
   getWorker_begin \<lparr>capacity = 1, running = 1, freeSignal = 0, workers = [],
       workerPool = [], release = ChanClosed, closed = 1, started = [0],
       inbox = [(0, 7)], busy = [0], stopped = []\<rparr> None =
     (WaitRecv, \<lparr>capacity = 1, running = 1, freeSignal = 0, workers = [],
       workerPool = [], release = ChanClosed, closed = 1, started = [0],
       inbox = [(0, 7)], busy = [0], stopped = []\<rparr>) \<and>
   putWorker \<lparr>capacity = 1, running = 1, freeSignal = 0, workers = [],
       workerPool = [], release = ChanClosed, closed = 1, started = [0],
       inbox = [(0, 7)], busy = [0], stopped = []\<rparr> 0 =
     Some \<lparr>capacity = 1, running = 1, freeSignal = 1, workers = [0],
       workerPool = [0], release = ChanClosed, closed = 1, started = [0],
       inbox = [(0, 7)], busy = [0], stopped = []\<rparr> \<and>
   crun [Submit 7 None, Submit 8 None, Other OpRelease, Other (OpPutWorker 0)]
       (projr (NewPool 1), []) =
     Some (\<lparr>capacity = 1, running = 1, freeSignal = 1, workers = [0],
       workerPool = [0], release = ChanClosed, closed = 1, started = [0],
       inbox = [(0, 7)], busy = [], stopped = []\<rparr>, [Done None, AtRecv 8]) \<and>
   workers \<lparr>capacity = 1, running = 1, freeSignal = 1, workers = [0],
       workerPool = [0], release = ChanClosed, closed = 1, started = [0],
       inbox = [(0, 7)], busy = [], stopped = []\<rparr> \<noteq> [] \<and>
   getWorker_pass \<lparr>capacity = 1, running = 1, freeSignal = 1, workers = [0],
       workerPool = [0], release = ChanClosed, closed = 1, started = [0],
       inbox = [(0, 7)], busy = [], stopped = []\<rparr> =
     (Got 0, \<lparr>capacity = 1, running = 1, freeSignal = 1, workers = [],
       workerPool = [0], release = ChanClosed, closed = 1, started = [0],
       inbox = [(0, 7)], busy = [], stopped = []\<rparr>) \<and>
   getWorker \<lparr>capacity = 1, running = 1, freeSignal = 1, workers = [0],
       workerPool = [0], release = ChanClosed, closed = 1, started = [0],
       inbox = [(0, 7)], busy = [], stopped = []\<rparr> None =
     Some (1, \<lparr>capacity = 1, running = 2, freeSignal = 1, workers = [],
       workerPool = [0], release = ChanClosed, closed = 1, started = [0, 1],
       inbox = [(0, 7)], busy = [], stopped = []\<rparr>) \<and>
   Push_resume (AtRecv 8) \<lparr>capacity = 1, running = 1, freeSignal = 1, workers = [0],
       workerPool = [0], release = ChanClosed, closed = 1, started = [0],
       inbox = [(0, 7)], busy = [], stopped = []\<rparr> =
     (Done None, \<lparr>capacity = 1, running = 1, freeSignal = 0, workers = [],
       workerPool = [0], release = ChanClosed, closed = 1, started = [0],
       inbox = [(0, 7), (0, 8)], busy = [0], stopped = []\<rparr>) \<and>
   crun [Submit 7 None, Submit 8 None, Other OpRelease, Other (OpPutWorker 0), Wake 1,
         Other (OpReSize 2)] (projr (NewPool 1), []) =
     Some (\<lparr>capacity = 2, running = 1, freeSignal = 0, workers = [],
       workerPool = [0], release = ChanClosed, closed = 1, started = [0],
       inbox = [(0, 7), (0, 8)], busy = [0], stopped = []\<rparr>, [Done None, Done None]) \<and>
   workers \<lparr>capacity = 2, running = 1, freeSignal = 0, workers = [],
       workerPool = [0], release = ChanClosed, closed = 1, started = [0],
       inbox = [(0, 7), (0, 8)], busy = [0], stopped = []\<rparr> = [] \<and>
   running \<lparr>capacity = 2, running = 1, freeSignal = 0, workers = [],
       workerPool = [0], release = ChanClosed, closed = 1, started = [0],
       inbox = [(0, 7), (0, 8)], busy = [0], stopped = []\<rparr> <s
     capacity \<lparr>capacity = 2, running = 1, freeSignal = 0, workers = [],
       workerPool = [0], release = ChanClosed, closed = 1, started = [0],
       inbox = [(0, 7), (0, 8)], busy = [0], stopped = []\<rparr> \<and>
   getWorker \<lparr>capacity = 2, running = 1, freeSignal = 0, workers = [],
       workerPool = [0], release = ChanClosed, closed = 1, started = [0],
       inbox = [(0, 7), (0, 8)], busy = [0], stopped = []\<rparr> None =
     Some (1, \<lparr>capacity = 2, running = 2, freeSignal = 0, workers = [],
       workerPool = [0], release = ChanClosed, closed = 1, started = [0, 1],
       inbox = [(0, 7), (0, 8)], busy = [0], stopped = []\<rparr>) \<and>
   getWorker \<lparr>capacity = 2, running = 1, freeSignal = 0, workers = [],
       workerPool = [0], release = ChanClosed, closed = 1, started = [0],
       inbox = [(0, 7), (0, 8)], busy = [0], stopped = []\<rparr> (Some 0) =
     Some (0, \<lparr>capacity = 2, running = 1, freeSignal = 0, workers = [],
       workerPool = [], release = ChanClosed, closed = 1, started = [0],
       inbox = [(0, 7), (0, 8)], busy = [0], stopped = []\<rparr>) \<and>
   Push_begin \<lparr>capacity = 1, running = 1, freeSignal = 1, workers = [0],
       workerPool = [0], release = ChanClosed, closed = 1, started = [0],
       inbox = [(0, 7)], busy = [], stopped = []\<rparr> 9 None =
     (Done (Some PoolClosedError), \<lparr>capacity = 1, running = 1, freeSignal = 1, workers = [0],
       workerPool = [0], release = ChanClosed, closed = 1, started = [0],
       inbox = [(0, 7)], busy = [], stopped = []\<rparr>) \<and>
   Push_begin ((projr (NewPool 1))\<lparr>closed := 2\<rparr>) 7 None =
     (Done None, \<lparr>capacity = 1, running = 1, freeSignal = 0, workers = [],
       workerPool = [], release = ChanOpen, closed = 2, started = [0],
       inbox = [(0, 7)], busy = [0], stopped = []\<rparr>) \<and>
   scanAndClean_body \<lparr>capacity = 1, running = 1, freeSignal = 1, workers = [0],
       workerPool = [0], release = ChanClosed, closed = 1, started = [0],
       inbox = [(0, 7)], busy = [], stopped = []\<rparr> =
     \<lparr>capacity = 1, running = 1, freeSignal = 1, workers = [0],
       workerPool = [0], release = ChanClosed, closed = 1, started = [0],
       inbox = [(0, 7)], busy = [], stopped = [0]\<rparr> \<and>
   Push_resume (AtRecv 8) \<lparr>capacity = 1, running = 1, freeSignal = 1, workers = [0],
       workerPool = [0], release = ChanClosed, closed = 1, started = [0],
       inbox = [(0, 7)], busy = [], stopped = [0]\<rparr> =
     (AtSend 0 8, \<lparr>capacity = 1, running = 1, freeSignal = 0, workers = [],
       workerPool = [0], release = ChanClosed, closed = 1, started = [0],
       inbox = [(0, 7)], busy = [], stopped = [0]\<rparr>)"
  using
    closed_flag_use [where p = "\<lparr>capacity = 1, running = 1, freeSignal = 0, workers = [],
       workerPool = [], release = ChanClosed, closed = 1, started = [0],
       inbox = [(0, 7)], busy = [0], stopped = []\<rparr>" and w = 0 and c = 1 and pick = None and t = 9
      and i = 0 and k = "AtRecv 8" and n = 1]
    closed_flag_use [where p = "\<lparr>capacity = 1, running = 1, freeSignal = 1, workers = [0],
       workerPool = [0], release = ChanClosed, closed = 1, started = [0],
       inbox = [(0, 7)], busy = [], stopped = []\<rparr>" and w = 0 and c = 1 and pick = None and t = 9
      and i = 0 and k = "AtRecv 8" and n = 1]
    closed_flag_use [where p = "\<lparr>capacity = 2, running = 1, freeSignal = 0, workers = [],
       workerPool = [0], release = ChanClosed, closed = 1, started = [0],
       inbox = [(0, 7), (0, 8)], busy = [0], stopped = []\<rparr>" and w = 0 and c = 1 and pick = None and t = 9
      and i = 0 and k = "AtRecv 8" and n = 1]
    closed_flag_use [where p = "projr (NewPool 1)" and w = 0 and c = 2 and pick = None
      and t = 7 and i = 0 and k = "AtRecv 8" and n = 1]
  by (simp add: run_defs)

subsection \<open>The idle stack and the capacity check in \<open>getWorker\<close>\<close>

text \<open>
  C1 does not hold of the code. After \<open>NewPool(1)\<close>, a \<open>Push\<close> of task 7 (which starts
  worker 0) and \<open>putWorker\<close> of worker 0, the idle stack is \<open>[0]\<close>. \<open>getWorker\<close> pops
  worker 0, and since \<open>waiting\<close> is false it goes on to the branch that asks the
  \<open>sync.Pool\<close>: when that answers \<open>nil\<close>, the call returns the new worker 1, and worker 0
  is in no stack any more. And after \<open>NewPool(2)\<close>, two calls of \<open>Push\<close> and both workers
  put back, the idle stack is \<open>[0, 1]\<close>: when the \<open>sync.Pool\<close> answers worker 0, the call
  pops worker 1 and returns worker 0, which is still in the idle stack.
\<close>

theorem getWorker_loses_popped_worker:
  "exec [OpPush 7 None, OpPutWorker 0] (projr (NewPool 1)) =
     Some \<lparr>capacity = 1, running = 1, freeSignal = 1, workers = [0], workerPool = [0],
            release = ChanOpen, closed = 0, started = [0], inbox = [(0, 7)],
            busy = [], stopped = []\<rparr> \<and>
   getWorker \<lparr>capacity = 1, running = 1, freeSignal = 1, workers = [0], workerPool = [0],
            release = ChanOpen, closed = 0, started = [0], inbox = [(0, 7)],
            busy = [], stopped = []\<rparr> None =
     Some (1, \<lparr>capacity = 1, running = 2, freeSignal = 1, workers = [], workerPool = [0],
            release = ChanOpen, closed = 0, started = [0, 1], inbox = [(0, 7)],
            busy = [], stopped = []\<rparr>) \<and>
   exec [OpPush 7 None, OpPush 8 None, OpPutWorker 0, OpPutWorker 1] (projr (NewPool 2)) =
     Some \<lparr>capacity = 2, running = 2, freeSignal = 2, workers = [0, 1], workerPool = [1, 0],
            release = ChanOpen, closed = 0, started = [0, 1], inbox = [(0, 7), (1, 8)],
            busy = [], stopped = []\<rparr> \<and>
   getWorker \<lparr>capacity = 2, running = 2, freeSignal = 2, workers = [0, 1], workerPool = [1, 0],
            release = ChanOpen, closed = 0, started = [0, 1], inbox = [(0, 7), (1, 8)],
            busy = [], stopped = []\<rparr>
       (Some 1) =
     Some (0, \<lparr>capacity = 2, running = 2, freeSignal = 2, workers = [0], workerPool = [1],
            release = ChanOpen, closed = 0, started = [0, 1], inbox = [(0, 7), (1, 8)],
            busy = [], stopped = []\<rparr>)"
  by (simp add: run_defs)

text \<open>
  C2 does not hold of the code. In the pool of capacity 1 whose one worker has been put
  back, \<open>running = capacity = 1\<close>. The next \<open>Push\<close> finds the idle stack non-empty, so
  it never compares \<open>running\<close> with \<open>capacity\<close>; the \<open>sync.Pool\<close> answers \<open>nil\<close>, and a
  second worker is started: \<open>Running()\<close> is 2, \<open>Cap()\<close> is 1.
\<close>

theorem Push_mints_at_capacity:
  "exec [OpPush 7 None, OpPutWorker 0] (projr (NewPool 1)) =
     Some \<lparr>capacity = 1, running = 1, freeSignal = 1, workers = [0], workerPool = [0],
            release = ChanOpen, closed = 0, started = [0], inbox = [(0, 7)],
            busy = [], stopped = []\<rparr> \<and>
   Push \<lparr>capacity = 1, running = 1, freeSignal = 1, workers = [0], workerPool = [0],
            release = ChanOpen, closed = 0, started = [0], inbox = [(0, 7)],
            busy = [], stopped = []\<rparr> 8 None =
     Some (None, \<lparr>capacity = 1, running = 2, freeSignal = 1, workers = [], workerPool = [0],
            release = ChanOpen, closed = 0, started = [0, 1], inbox = [(0, 7), (1, 8)],
            busy = [1], stopped = []\<rparr>) \<and>
   Cap \<lparr>capacity = 1, running = 2, freeSignal = 1, workers = [], workerPool = [0],
            release = ChanOpen, closed = 0, started = [0, 1], inbox = [(0, 7), (1, 8)],
            busy = [1], stopped = []\<rparr> <s
   Running \<lparr>capacity = 1, running = 2, freeSignal = 1, workers = [], workerPool = [0],
            release = ChanOpen, closed = 0, started = [0, 1], inbox = [(0, 7), (1, 8)],
            busy = [1], stopped = []\<rparr>"
  by (simp add: run_defs)

subsection \<open>The running counter\<close>




end
